theory Spec2Isabelle
  imports Main "HOL-Library.Word"
begin

unbundle bit_operations_syntax

section \<open>Strings as the interpreter uses them\<close>

text \<open>
  A Python \<open>str\<close> is a \<open>string\<close> (a list of 8-bit characters). Case conversion and the
  character classes of \<open>str.strip\<close>, \<open>str.split\<close> and of the regular expressions
  (\<open>\s\<close>, \<open>\d\<close>, \<open>\b\<close>) are the ones Python has on the ASCII range; every other
  character is left alone by \<open>lower\<close> and belongs to no class.
\<close>

definition isspace :: "char \<Rightarrow> bool" where
  "isspace c = (c \<in> set [CHR 0x09, CHR 0x0A, CHR 0x0B, CHR 0x0C, CHR 0x0D,
                          CHR 0x1C, CHR 0x1D, CHR 0x1E, CHR 0x1F, CHR 0x20])"

definition is_digit :: "char \<Rightarrow> bool" where
  "is_digit c = (c \<in> set ''0123456789'')"

definition is_word :: "char \<Rightarrow> bool" where
  "is_word c = (c \<in> set ''abcdefghijklmnopqrstuvwxyzABCDEFGHIJKLMNOPQRSTUVWXYZ0123456789_'')"

definition is_hex :: "char \<Rightarrow> bool" where
  "is_hex c = (c \<in> set ''abcdef0123456789'')"

definition is_quote :: "char \<Rightarrow> bool" where
  "is_quote c = (c = CHR 0x27 \<or> c = CHR 0x22)"

definition lower_char :: "char \<Rightarrow> char" where
  "lower_char c =
     (case map_of (zip ''ABCDEFGHIJKLMNOPQRSTUVWXYZ'' ''abcdefghijklmnopqrstuvwxyz'') c of
        None \<Rightarrow> c | Some d \<Rightarrow> d)"

definition upper_char :: "char \<Rightarrow> char" where
  "upper_char c =
     (case map_of (zip ''abcdefghijklmnopqrstuvwxyz'' ''ABCDEFGHIJKLMNOPQRSTUVWXYZ'') c of
        None \<Rightarrow> c | Some d \<Rightarrow> d)"

definition lower :: "string \<Rightarrow> string" where
  "lower s = map lower_char s"

text \<open>\<open>str.capitalize\<close>: the first character in upper case, the rest in lower case.\<close>

definition capitalize :: "string \<Rightarrow> string" where
  "capitalize s = (case s of [] \<Rightarrow> [] | c # cs \<Rightarrow> upper_char c # lower cs)"

definition strip :: "string \<Rightarrow> string" where
  "strip s = rev (dropWhile isspace (rev (dropWhile isspace s)))"

text \<open>\<open>str.split()\<close> with no argument: the maximal runs of non-whitespace characters.\<close>

fun split_aux :: "string \<Rightarrow> string \<Rightarrow> string list" where
  "split_aux cur [] = (if cur = [] then [] else [cur])"
| "split_aux cur (c # cs) =
     (if isspace c then (if cur = [] then split_aux [] cs else cur # split_aux [] cs)
      else split_aux (cur @ [c]) cs)"

definition split :: "string \<Rightarrow> string list" where
  "split s = split_aux [] s"

text \<open>\<open>w in text\<close> on strings: \<open>w\<close> occurs in \<open>text\<close> as a contiguous substring.\<close>

fun startswith :: "string \<Rightarrow> string \<Rightarrow> bool" where
  "startswith s [] = True"
| "startswith [] (w # ws) = False"
| "startswith (c # cs) (w # ws) = (c = w \<and> startswith cs ws)"

fun str_in :: "string \<Rightarrow> string \<Rightarrow> bool" where
  "str_in w [] = (w = [])"
| "str_in w (c # cs) = (startswith (c # cs) w \<or> str_in w cs)"

text \<open>\<open>any(w in text for w in ws)\<close>.\<close>

definition any_in :: "string list \<Rightarrow> string \<Rightarrow> bool" where
  "any_in ws text = list_ex (\<lambda>w. str_in w text) ws"

text \<open>
  \<open>s.replace(old, "")\<close>: every occurrence of \<open>old\<close> is removed, scanning from the left
  and continuing after each removed occurrence. With an empty \<open>old\<close> and an empty
  replacement Python returns \<open>s\<close>.
\<close>

function replace_empty :: "string \<Rightarrow> string \<Rightarrow> string" where
  "replace_empty old [] = []"
| "replace_empty old (c # cs) =
     (if old \<noteq> [] \<and> startswith (c # cs) old
      then replace_empty old (drop (length old) (c # cs))
      else c # replace_empty old cs)"
  by pat_completeness auto
termination
  by (relation "measure (\<lambda>(old, s). length s)") (auto simp: Suc_le_eq)

text \<open>\<open>int(ds)\<close> on a string of decimal digits, and \<open>str(n)\<close> on an integer.\<close>

definition digit_val :: "char \<Rightarrow> int" where
  "digit_val c = int (of_char c) - 48"

definition int_of_digits :: "string \<Rightarrow> int" where
  "int_of_digits ds = foldl (\<lambda>a c. 10 * a + digit_val c) 0 ds"

definition digit_char :: "nat \<Rightarrow> char" where
  "digit_char n = char_of (48 + n)"

function str_nat :: "nat \<Rightarrow> string" where
  "str_nat n = (if n < 10 then [digit_char n] else str_nat (n div 10) @ [digit_char (n mod 10)])"
  by pat_completeness auto
termination
  by (relation "measure (\<lambda>n. n)") auto

definition str_int :: "int \<Rightarrow> string" where
  "str_int i = (if i < 0 then CHR ''-'' # str_nat (nat (- i)) else str_nat (nat i))"

section \<open>The regular expressions of the interpreter\<close>

text \<open>
  Each regular expression of the source is modelled by the matcher that Python's
  backtracking search amounts to for that pattern: the search tries every start
  position from the left and returns the first match.
\<close>

subsection \<open>The id pattern \<open>node-[a-f0-9]{4}\<close>\<close>

definition id_match_at :: "string \<Rightarrow> bool" where
  "id_match_at s =
     (startswith s ''node-'' \<and> 9 \<le> length s \<and> list_all is_hex (take 4 (drop 5 s)))"

text \<open>The whole string is one match of the id pattern (\<open>re.fullmatch\<close>).\<close>

definition id_fullmatch :: "string \<Rightarrow> bool" where
  "id_fullmatch s = (id_match_at s \<and> length s = 9)"

text \<open>\<open>re.search(id_format, text)\<close>, giving \<open>group(0)\<close> of the first match.\<close>

fun re_search_id :: "string \<Rightarrow> string option" where
  "re_search_id [] = None"
| "re_search_id (c # cs) =
     (if id_match_at (c # cs) then Some (take 9 (c # cs)) else re_search_id cs)"

text \<open>\<open>re.sub(id_format, "", label)\<close>: every match is removed, from the left.\<close>

function re_sub_id :: "string \<Rightarrow> string" where
  "re_sub_id [] = []"
| "re_sub_id (c # cs) =
     (if id_match_at (c # cs) then re_sub_id (drop 9 (c # cs)) else c # re_sub_id cs)"
  by pat_completeness auto
termination
  by (relation "measure length") auto

subsection \<open>The integer token \<open>\b(\d+)\b\<close>\<close>

text \<open>
  A match starts at a digit that has no word character before it, takes the whole run of
  digits (a shorter run would end between two digits, where there is no word boundary)
  and needs the run to end the text or to be followed by a non-word character. The first
  argument says whether the character before the current position is a word character.
\<close>

fun re_search_int_aux :: "bool \<Rightarrow> string \<Rightarrow> string option" where
  "re_search_int_aux pw [] = None"
| "re_search_int_aux pw (c # cs) =
     (if is_digit c \<and> \<not> pw \<and>
         (case dropWhile is_digit cs of [] \<Rightarrow> True | d # _ \<Rightarrow> \<not> is_word d)
      then Some (c # takeWhile is_digit cs)
      else re_search_int_aux (is_word c) cs)"

definition re_search_int :: "string \<Rightarrow> string option" where
  "re_search_int s = re_search_int_aux False s"

subsection \<open>The quoted label \<open>['"](.*?)['"]\<close>\<close>

text \<open>
  After an opening quote the lazy \<open>.*?\<close> stops at the nearest quote character; it cannot
  cross a newline. \<open>first_quoted\<close> is \<open>quoted[0]\<close> of \<open>re.findall\<close>, when there is one.
\<close>

fun scan_close :: "string \<Rightarrow> string option" where
  "scan_close [] = None"
| "scan_close (c # cs) =
     (if is_quote c then Some []
      else if c = CHR 0x0A then None
      else map_option ((#) c) (scan_close cs))"

fun first_quoted :: "string \<Rightarrow> string option" where
  "first_quoted [] = None"
| "first_quoted (c # cs) =
     (if is_quote c
      then (case scan_close cs of Some q \<Rightarrow> Some q | None \<Rightarrow> first_quoted cs)
      else first_quoted cs)"

subsection \<open>The connective \<open>(?:called|named|item|for|to)\s+(.*)\<close>, ignoring case\<close>

definition connectives :: "string list" where
  "connectives = [''called'', ''named'', ''item'', ''for'', ''to'']"

text \<open>
  The pattern matched at the start of \<open>s\<close>: one of the words (in any case), at least one
  whitespace character, and then \<open>group(1)\<close>, the rest of the line after the whitespace.
\<close>

definition connective_at :: "string \<Rightarrow> string option" where
  "connective_at s =
     (case filter (\<lambda>w. startswith (lower s) w \<and>
                        (case drop (length w) s of [] \<Rightarrow> False | d # _ \<Rightarrow> isspace d))
                  connectives of
        [] \<Rightarrow> None
      | w # _ \<Rightarrow> Some (takeWhile (\<lambda>c. c \<noteq> CHR 0x0A) (dropWhile isspace (drop (length w) s))))"

fun re_search_connective :: "string \<Rightarrow> string option" where
  "re_search_connective [] = None"
| "re_search_connective (c # cs) =
     (case connective_at (c # cs) of Some g \<Rightarrow> Some g | None \<Rightarrow> re_search_connective cs)"

section \<open>Schema constants\<close>

definition metric_range :: "int \<times> int" where
  "metric_range = (0, 100)"

definition max_data_items :: nat where
  "max_data_items = 50"

definition max_label_length :: nat where
  "max_label_length = 32"

section \<open>Semantic elements\<close>

text \<open>
  The four element classes share \<open>eid\<close>, \<open>role\<close> and the \<open>title\<close> and \<open>color\<close> entries of
  the \<open>state\<close> dictionary; a subclass adds one entry (\<open>value\<close>, \<open>items\<close> or \<open>active\<close>) and
  one capability. The capability list is written by the constructors only, so it is a
  function of the class. Widgets, style sheets and the pulse animation are presentation
  and are not modelled.
\<close>

datatype kind_state =
    BaseState
  | MetricState (state_value: int)
  | DataViewState (state_items: "string list")
  | StatusState (state_active: bool)

record element =
  eid :: string
  role :: string
  title :: string
  color :: string
  kstate :: kind_state

definition capabilities :: "element \<Rightarrow> string list" where
  "capabilities el =
     (case kstate el of
        BaseState \<Rightarrow> [''color_change'']
      | MetricState _ \<Rightarrow> [''color_change'', ''numeric_update'']
      | DataViewState _ \<Rightarrow> [''color_change'', ''list_append'']
      | StatusState _ \<Rightarrow> [''color_change'', ''toggle_status''])"

definition BaseSemanticElement :: "string \<Rightarrow> string \<Rightarrow> string \<Rightarrow> element" where
  "BaseSemanticElement e r t =
     \<lparr>eid = e, role = r, title = take max_label_length t, color = ''primary'',
      kstate = BaseState\<rparr>"

definition MetricElement :: "string \<Rightarrow> string \<Rightarrow> string \<Rightarrow> element" where
  "MetricElement e r t = (BaseSemanticElement e r t)\<lparr>kstate := MetricState 0\<rparr>"

definition DataViewElement :: "string \<Rightarrow> string \<Rightarrow> string \<Rightarrow> element" where
  "DataViewElement e r t = (BaseSemanticElement e r t)\<lparr>kstate := DataViewState []\<rparr>"

definition StatusElement :: "string \<Rightarrow> string \<Rightarrow> string \<Rightarrow> element" where
  "StatusElement e r t = (BaseSemanticElement e r t)\<lparr>kstate := StatusState False\<rparr>"

text \<open>\<open>MetricElement.update_view\<close>: the value is clamped into the metric range.\<close>

definition Metric_update_view :: "element \<Rightarrow> int \<Rightarrow> element" where
  "Metric_update_view el v =
     (let (min_v, max_v) = metric_range;
          clamped_val = max min_v (min max_v v)
      in el\<lparr>kstate := MetricState clamped_val\<rparr>)"

text \<open>
  \<open>DataViewElement.update_view\<close> on the item list: a truthy (non-empty) item is appended,
  then a list longer than the limit keeps its last \<open>limit\<close> entries.
\<close>

definition update_items :: "string list \<Rightarrow> string \<Rightarrow> string list" where
  "update_items its new_item =
     (let its1 = (if new_item \<noteq> [] then its @ [new_item] else its);
          limit = max_data_items
      in if length its1 > limit then drop (length its1 - limit) its1 else its1)"

datatype error = KeyError | IndexError

definition DataView_update_view :: "element \<Rightarrow> string \<Rightarrow> error + element" where
  "DataView_update_view el new_item =
     (case kstate el of
        DataViewState its \<Rightarrow> Inr (el\<lparr>kstate := DataViewState (update_items its new_item)\<rparr>)
      | _ \<Rightarrow> Inl KeyError)"

text \<open>The toggle of \<open>state["active"]\<close> that precedes \<open>StatusElement.update_view\<close>.\<close>

definition toggle_active :: "element \<Rightarrow> error + element" where
  "toggle_active el =
     (case kstate el of
        StatusState a \<Rightarrow> Inr (el\<lparr>kstate := StatusState (\<not> a)\<rparr>)
      | _ \<Rightarrow> Inl KeyError)"

section \<open>Entity ids\<close>

text \<open>
  \<open>uuid.uuid4()\<close> draws 16 random bytes, here the argument, and sets the variant and
  version bits; \<open>str\<close> prints the 128 bits as 32 lower-case hexadecimal digits in groups
  of 8, 4, 4, 4 and 12 separated by dashes.
\<close>

definition uuid4 :: "128 word \<Rightarrow> 128 word" where
  "uuid4 r =
     (((r AND NOT (push_bit 48 0xc000)) OR push_bit 48 0x8000)
        AND NOT (push_bit 64 0xf000)) OR push_bit 76 4"

definition hex_char :: "nat \<Rightarrow> char" where
  "hex_char n = ''0123456789abcdef'' ! n"

primrec hex_digits :: "nat \<Rightarrow> 128 word \<Rightarrow> string" where
  "hex_digits 0 u = []"
| "hex_digits (Suc n) u = hex_char (unat (drop_bit (4 * n) u AND 0xf)) # hex_digits n u"

definition str_uuid :: "128 word \<Rightarrow> string" where
  "str_uuid u =
     (let h = hex_digits 32 u
      in take 8 h @ ''-'' @ take 4 (drop 8 h) @ ''-'' @ take 4 (drop 12 h) @ ''-'' @
         take 4 (drop 16 h) @ ''-'' @ drop 20 h)"

definition new_eid :: "128 word \<Rightarrow> string" where
  "new_eid rnd = ''node-'' @ take 4 (str_uuid (uuid4 rnd))"

section \<open>The interpreter state\<close>

text \<open>
  The state that command processing reads and writes: the registry (a dictionary from
  entity id to element) and the lines appended to the log display, which are either the
  echo of the command or a system message with its colour.
\<close>

datatype log_line = Human string | System string string

record shell =
  registry :: "string \<rightharpoonup> element"
  log_display :: "log_line list"

definition sys_log :: "shell \<Rightarrow> string \<Rightarrow> string \<Rightarrow> shell" where
  "sys_log st msg col = st\<lparr>log_display := log_display st @ [System msg col]\<rparr>"

definition NeuroShellOS :: shell where
  "NeuroShellOS =
     sys_log \<lparr>registry = Map.empty, log_display = []\<rparr>
       ''Kernel Online. Semantic Disambiguator Active.'' ''#10B981''"

section \<open>Intent classification\<close>

datatype intent =
    Unknown
  | INTERACT_TOGGLE | INTERACT_APPEND | INTERACT_NUMERIC
  | CREATE_METRIC | CREATE_DATA | CREATE_STATUS | CREATE_BASE

text \<open>Python's truth value of the optional target id: neither \<open>None\<close> nor empty.\<close>

definition truthy :: "string option \<Rightarrow> bool" where
  "truthy t = (case t of None \<Rightarrow> False | Some s \<Rightarrow> s \<noteq> [])"

definition classify :: "string \<Rightarrow> string option \<Rightarrow> intent" where
  "classify text target_id =
     (let is_explicit_interact =
            any_in [''toggle'', ''switch'', ''set node'', ''update node''] text;
          is_append_interact =
            (str_in ''add item'' text \<or> str_in ''add to'' text \<or> str_in ''log'' text \<or>
             str_in ''append'' text);
          intent1 =
            (if truthy target_id \<and>
                (is_explicit_interact \<or> is_append_interact \<or> str_in ''node-'' text)
             then (if any_in [''toggle'', ''switch''] text then INTERACT_TOGGLE
                   else if any_in [''append'', ''item'', ''put'', ''insert'', ''log'', ''add to''] text
                        then INTERACT_APPEND
                   else if any_in [''update'', ''set'', ''push'', ''change''] text
                        then INTERACT_NUMERIC
                   else Unknown)
             else Unknown)
      in if intent1 = Unknown \<and> any_in [''add'', ''new'', ''create'', ''make''] text
         then (if any_in [''progress'', ''bar'', ''percent''] text then CREATE_METRIC
               else if any_in [''data'', ''list'', ''view'', ''logs''] text then CREATE_DATA
               else if any_in [''status'', ''indicator'', ''light'', ''toggle''] text
                    then CREATE_STATUS
               else CREATE_BASE)
         else intent1)"

section \<open>Label extraction\<close>

text \<open>
  The label is computed from the stripped text in its original case. The last token of an
  empty \<open>split()\<close> would raise \<open>IndexError\<close>.
\<close>

definition extract_label :: "string \<Rightarrow> error + string" where
  "extract_label raw_text =
     (let label0 = (case first_quoted raw_text of Some q \<Rightarrow> q | None \<Rightarrow> []);
          label1 =
            (if label0 = []
             then (case re_search_connective raw_text of
                     Some g \<Rightarrow> Inr (strip g)
                   | None \<Rightarrow>
                       (case split raw_text of
                          [] \<Rightarrow> Inl IndexError
                        | t # ts \<Rightarrow> Inr (capitalize (last (t # ts)))))
             else Inr label0)
      in case label1 of Inl e \<Rightarrow> Inl e | Inr l \<Rightarrow> Inr (strip (re_sub_id l)))"

section \<open>Intent execution\<close>

definition is_create :: "intent \<Rightarrow> bool" where
  "is_create i = (i = CREATE_METRIC \<or> i = CREATE_DATA \<or> i = CREATE_STATUS \<or> i = CREATE_BASE)"

text \<open>\<open>self.registry[tid]\<close>: a missing key, or \<open>None\<close> as the key, raises \<open>KeyError\<close>.\<close>

definition lookup :: "shell \<Rightarrow> string option \<Rightarrow> error + (string \<times> element)" where
  "lookup st tid =
     (case tid of
        None \<Rightarrow> Inl KeyError
      | Some t \<Rightarrow> (case registry st t of None \<Rightarrow> Inl KeyError | Some el \<Rightarrow> Inr (t, el)))"

text \<open>The last two lines of \<open>execute_intent\<close>: the one system message of the command.\<close>

definition report :: "shell \<Rightarrow> bool \<Rightarrow> string \<Rightarrow> shell" where
  "report st success msg =
     (if success then sys_log st msg ''#10B981''
      else sys_log st (if msg \<noteq> [] then msg else ''Interpreter: Semantic Mismatch.'')
             ''#EF4444'')"

definition new_element :: "intent \<Rightarrow> string \<Rightarrow> string \<Rightarrow> element" where
  "new_element i e label =
     (if i = CREATE_METRIC then MetricElement e ''metric_display'' label
      else if i = CREATE_DATA then DataViewElement e ''data_view'' label
      else if i = CREATE_STATUS then StatusElement e ''status_indicator'' label
      else BaseSemanticElement e ''primary_action'' label)"

definition execute_create :: "shell \<Rightarrow> intent \<Rightarrow> string \<Rightarrow> 128 word \<Rightarrow> error + shell" where
  "execute_create st i label rnd =
     (let e = new_eid rnd;
          el = new_element i e label
      in Inr (report (st\<lparr>registry := (registry st)(e \<mapsto> el)\<rparr>) True
                (''Created '' @ role el @ '' ('' @ e @ '')'')))"

definition execute_numeric :: "shell \<Rightarrow> string option \<Rightarrow> string \<Rightarrow> error + shell" where
  "execute_numeric st tid raw =
     (case lookup st tid of
        Inl e \<Rightarrow> Inl e
      | Inr (t, target) \<Rightarrow>
          if ''numeric_update'' \<in> set (capabilities target)
          then (case re_search_int (replace_empty t raw) of
                  Some ds \<Rightarrow>
                    (let target' = Metric_update_view target (int_of_digits ds)
                     in Inr (report (st\<lparr>registry := (registry st)(t \<mapsto> target')\<rparr>) True
                               (''Set '' @ t @ '' to '' @
                                str_int (state_value (kstate target')) @ ''%'')))
                | None \<Rightarrow> Inr (report st False []))
          else Inr (report st False (''Capability Error: '' @ t @ '' is not a metric.'')))"

definition execute_toggle :: "shell \<Rightarrow> string option \<Rightarrow> error + shell" where
  "execute_toggle st tid =
     (case lookup st tid of
        Inl e \<Rightarrow> Inl e
      | Inr (t, target) \<Rightarrow>
          if ''toggle_status'' \<in> set (capabilities target)
          then (case toggle_active target of
                  Inl e \<Rightarrow> Inl e
                | Inr target' \<Rightarrow>
                    Inr (report (st\<lparr>registry := (registry st)(t \<mapsto> target')\<rparr>) True
                           (''Toggled '' @ t)))
          else Inr (report st False []))"

definition execute_append :: "shell \<Rightarrow> string option \<Rightarrow> string \<Rightarrow> error + shell" where
  "execute_append st tid label =
     (case lookup st tid of
        Inl e \<Rightarrow> Inl e
      | Inr (t, target) \<Rightarrow>
          if ''list_append'' \<in> set (capabilities target)
          then (case DataView_update_view target label of
                  Inl e \<Rightarrow> Inl e
                | Inr target' \<Rightarrow>
                    Inr (report (st\<lparr>registry := (registry st)(t \<mapsto> target')\<rparr>) True
                           (''Logged data to '' @ t)))
          else Inr (report st False (''Capability Error: '' @ t @ '' is not a data list.'')))"

text \<open>
  \<open>execute_intent\<close>. The random bytes that \<open>uuid4\<close> would draw are the last argument;
  only creation reads them.
\<close>

definition execute_intent ::
  "shell \<Rightarrow> intent \<Rightarrow> string option \<Rightarrow> string \<Rightarrow> string \<Rightarrow> 128 word \<Rightarrow> error + shell" where
  "execute_intent st i tid label raw rnd =
     (if truthy tid \<and> registry st (the tid) = None
      then Inr (sys_log st (''Error: Node '' @ [CHR 0x27] @ the tid @ [CHR 0x27] @
                            '' not found.'') ''#EF4444'')
      else if is_create i then execute_create st i label rnd
      else if i = INTERACT_NUMERIC then execute_numeric st tid raw
      else if i = INTERACT_TOGGLE then execute_toggle st tid
      else if i = INTERACT_APPEND then execute_append st tid label
      else Inr (report st False []))"

section \<open>Command processing\<close>

text \<open>
  \<open>process_intent\<close> on the text of the input line. A blank line returns at once;
  otherwise the command is echoed, classified and executed.
\<close>

definition process_intent :: "shell \<Rightarrow> string \<Rightarrow> 128 word \<Rightarrow> error + shell" where
  "process_intent st input_text rnd =
     (let raw_text = strip input_text
      in if raw_text = [] then Inr st
         else (let st1 = st\<lparr>log_display := log_display st @ [Human raw_text]\<rparr>;
                   text = lower raw_text;
                   target_id = re_search_id text;
                   i = classify text target_id
               in case extract_label raw_text of
                    Inl e \<Rightarrow> Inl e
                  | Inr label \<Rightarrow> execute_intent st1 i target_id label text rnd))"

section \<open>Sequences of interactions\<close>

text \<open>The most recent at most \<open>n\<close> entries of a list, in their order.\<close>

definition last_n :: "nat \<Rightarrow> 'a list \<Rightarrow> 'a list" where
  "last_n n xs = drop (length xs - n) xs"

text \<open>A sequence of append interactions on one element: \<open>update_view\<close> once per value.\<close>

fun append_all :: "element \<Rightarrow> string list \<Rightarrow> error + element" where
  "append_all el [] = Inr el"
| "append_all el (x # xs) =
     (case DataView_update_view el x of Inl e \<Rightarrow> Inl e | Inr el' \<Rightarrow> append_all el' xs)"

text \<open>A session: the commands entered one after the other, each with its random bytes.\<close>

fun run :: "shell \<Rightarrow> (string \<times> 128 word) list \<Rightarrow> error + shell" where
  "run st [] = Inr st"
| "run st ((cmd, rnd) # cmds) =
     (case process_intent st cmd rnd of Inl e \<Rightarrow> Inl e | Inr st' \<Rightarrow> run st' cmds)"

section \<open>The label as the specification words it\<close>


section \<open>Properties of the interpreter\<close>

subsection \<open>The item list of a data view\<close>

lemma update_items_last_n:
  "update_items its x = last_n max_data_items (its @ (if x \<noteq> [] then [x] else []))"
  by (simp add: update_items_def last_n_def Let_def)

lemma length_last_n: "length (last_n n xs) \<le> n"
  by (simp add: last_n_def)

lemma last_n_id: "length xs \<le> n \<Longrightarrow> last_n n xs = xs"
  by (simp add: last_n_def)

lemma last_n_append_last_n: "last_n n (last_n n xs @ ys) = last_n n (xs @ ys)"
proof (cases "length xs \<le> n")
  case True
  then show ?thesis by (simp add: last_n_def)
next
  case False
  then have "length xs + length ys - (length xs - n + n) + (length xs - n) =
             length xs + length ys - n"
    by arith
  then show ?thesis using False by (simp add: last_n_def)
qed

lemma append_all_items:
  "kstate el = DataViewState its \<Longrightarrow> length its \<le> max_data_items \<Longrightarrow>
   append_all el xs =
     Inr (el\<lparr>kstate := DataViewState (last_n max_data_items (its @ filter (\<lambda>x. x \<noteq> []) xs))\<rparr>)"
proof (induction xs arbitrary: el its)
  case Nil
  then show ?case by (simp add: last_n_id)
next
  case (Cons x xs)
  let ?its' = "update_items its x"
  let ?el' = "el\<lparr>kstate := DataViewState ?its'\<rparr>"
  have step: "DataView_update_view el x = Inr ?el'"
    using Cons.prems(1) by (simp add: DataView_update_view_def)
  have len: "length ?its' \<le> max_data_items"
    by (simp add: update_items_last_n length_last_n)
  have "append_all ?el' xs =
      Inr (?el'\<lparr>kstate := DataViewState (last_n max_data_items (?its' @ filter (\<lambda>x. x \<noteq> []) xs))\<rparr>)"
    by (rule Cons.IH) (simp_all add: len)
  then show ?case
    using step by (simp add: update_items_last_n last_n_append_last_n)
qed

text \<open>
  C3, as the code has it. For a data view whose item list is within the limit (a new one is
  empty) and every sequence of values passed to \<open>update_view\<close>, no call fails, the item
  list stays within 50 entries, and it is the most recent at most 50 of the earlier
  items followed by the non-empty values, in order. An empty value is not appended.
\<close>

theorem dataview_items_recent:
  assumes "kstate el = DataViewState its" and "length its \<le> max_data_items"
  shows "\<exists>el'. append_all el xs = Inr el' \<and>
           length (state_items (kstate el')) \<le> 50 \<and>
           state_items (kstate el') =
             last_n 50 (its @ filter (\<lambda>x. x \<noteq> []) xs) \<and>
           eid el' = eid el \<and> role el' = role el \<and> title el' = title el"
proof -
  have m: "max_data_items = 50" by (simp add: max_data_items_def)
  show ?thesis
    using append_all_items [OF assms, of xs] length_last_n [of 50] by (simp add: m)
qed

theorem dataview_items_recent_witness:
  "kstate (DataViewElement ''node-ab12'' ''data_view'' ''Log'') = DataViewState [] \<and>
   length ([] :: string list) \<le> max_data_items \<and>
   (\<exists>el'. append_all (DataViewElement ''node-ab12'' ''data_view'' ''Log'') [''a'', [], ''b''] = Inr el' \<and>
      length (state_items (kstate el')) \<le> 50 \<and>
      state_items (kstate el') = [''a'', ''b''] \<and>
      eid el' = ''node-ab12'')"
proof -
  have k: "kstate (DataViewElement ''node-ab12'' ''data_view'' ''Log'') = DataViewState []"
    by (simp add: DataViewElement_def)
  have l: "length ([] :: string list) \<le> max_data_items" by simp
  have e: "eid (DataViewElement ''node-ab12'' ''data_view'' ''Log'') = ''node-ab12''"
    by (simp add: DataViewElement_def BaseSemanticElement_def)
  obtain el' where
    "append_all (DataViewElement ''node-ab12'' ''data_view'' ''Log'') [''a'', [], ''b''] = Inr el'"
    "length (state_items (kstate el')) \<le> 50"
    "state_items (kstate el') = last_n 50 ([] @ filter (\<lambda>x. x \<noteq> []) [''a'', [], ''b''])"
    "eid el' = eid (DataViewElement ''node-ab12'' ''data_view'' ''Log'')"
    using dataview_items_recent [OF k l, of "[''a'', [], ''b'']"] by blast
  then have "append_all (DataViewElement ''node-ab12'' ''data_view'' ''Log'') [''a'', [], ''b''] = Inr el' \<and>
      length (state_items (kstate el')) \<le> 50 \<and>
      state_items (kstate el') = [''a'', ''b''] \<and>
      eid el' = ''node-ab12''"
    using e by (simp add: last_n_def)
  then show ?thesis using k l by blast
qed

text \<open>
  C3 as it is stated fails when an appended value is empty: after the values \<open>a\<close> and
  the empty string, the items are not the two most recent values.
\<close>

theorem dataview_items_recent_counterexample:
  "map_sum id (state_items \<circ> kstate)
     (append_all (DataViewElement ''node-ab12'' ''data_view'' ''Log'') [''a'', []])
   \<noteq> Inr (last_n 50 [''a'', []])"
  by (simp add: DataViewElement_def BaseSemanticElement_def DataView_update_view_def
      update_items_def max_data_items_def last_n_def)

subsection \<open>Numeric interaction\<close>


lemma digit_val_nonneg: "is_digit c \<Longrightarrow> 0 \<le> digit_val c"
  by (auto simp: is_digit_def digit_val_def)

lemma foldl_digits_nonneg:
  "list_all is_digit ds \<Longrightarrow> 0 \<le> a \<Longrightarrow> 0 \<le> foldl (\<lambda>a c. 10 * a + digit_val c) a ds"
proof (induction ds arbitrary: a)
  case Nil
  then show ?case by simp
next
  case (Cons d ds)
  then have "0 \<le> 10 * a + digit_val d"
    using digit_val_nonneg [of d] by simp
  then show ?case using Cons by simp
qed

lemma int_of_digits_nonneg: "list_all is_digit ds \<Longrightarrow> 0 \<le> int_of_digits ds"
  by (simp add: int_of_digits_def foldl_digits_nonneg)






text \<open>
  The token pattern has no sign: in \<open>set node-ab12 to -5\<close> the token is \<open>5\<close>, and 5 is
  stored.
\<close>

lemma numeric_sign_not_read:
  "re_search_int (replace_empty ''node-ab12'' ''set node-ab12 to -5'') = Some ''5'' \<and>
   int_of_digits ''5'' = 5"
  by code_simp

subsection \<open>The branches of the executor\<close>

lemma not_found_guard:
  "truthy tid \<Longrightarrow> registry st (the tid) = None \<Longrightarrow>
   execute_intent st i tid label raw rnd =
     Inr (sys_log st (''Error: Node '' @ [CHR 0x27] @ the tid @ [CHR 0x27] @ '' not found.'') ''#EF4444'')"
  by (simp add: execute_intent_def)

lemma execute_unknown:
  "execute_intent st Unknown tid label raw rnd =
     Inr (sys_log st
            (if truthy tid \<and> registry st (the tid) = None
             then ''Error: Node '' @ [CHR 0x27] @ the tid @ [CHR 0x27] @ '' not found.''
             else ''Interpreter: Semantic Mismatch.'') ''#EF4444'')"
  by (simp add: execute_intent_def is_create_def report_def)

lemma execute_create_ok:
  "is_create i \<Longrightarrow> \<not> (truthy tid \<and> registry st (the tid) = None) \<Longrightarrow>
   execute_intent st i tid label raw rnd =
     Inr (sys_log (st\<lparr>registry := (registry st)(new_eid rnd \<mapsto> new_element i (new_eid rnd) label)\<rparr>)
            (''Created '' @ role (new_element i (new_eid rnd) label) @ '' ('' @ new_eid rnd @ '')'')
            ''#10B981'')"
  by (auto simp: execute_intent_def execute_create_def report_def Let_def)

lemma new_element_fields:
  "eid (new_element i e label) = e"
  "title (new_element i e label) = take 32 label"
  "length (title (new_element i e label)) \<le> 32"
  "color (new_element i e label) = ''primary''"
  "role (new_element i e label) =
     (if i = CREATE_METRIC then ''metric_display'' else if i = CREATE_DATA then ''data_view''
      else if i = CREATE_STATUS then ''status_indicator'' else ''primary_action'')"
  "kstate (new_element i e label) =
     (if i = CREATE_METRIC then MetricState 0 else if i = CREATE_DATA then DataViewState []
      else if i = CREATE_STATUS then StatusState False else BaseState)"
  by (simp_all add: new_element_def MetricElement_def DataViewElement_def StatusElement_def
      BaseSemanticElement_def max_label_length_def)

subsection \<open>Generated ids\<close>

lemma hex_char_is_hex: "n < 16 \<Longrightarrow> is_hex (hex_char n)"
proof -
  assume "n < 16"
  then have "''0123456789abcdef'' ! n \<in> set ''0123456789abcdef''"
    by (intro nth_mem) simp
  then show ?thesis
    unfolding hex_char_def is_hex_def by auto
qed

lemma nibble_less: "unat ((w :: 128 word) AND 0xf) < 16"
proof -
  have "w AND 0xf \<le> 0xf" by (rule word_and_le1)
  then have "unat (w AND 0xf) \<le> unat (0xf :: 128 word)" by (simp add: word_le_nat_alt)
  then show ?thesis by simp
qed

lemma hex_digits_hex: "list_all is_hex (hex_digits n u)"
  by (induction n) (simp_all add: hex_char_is_hex nibble_less)

lemma length_hex_digits: "length (hex_digits n u) = n"
  by (induction n) simp_all

lemma new_eid_matches: "id_fullmatch (new_eid rnd)"
proof -
  let ?h = "hex_digits 32 (uuid4 rnd)"
  have t: "take 4 (str_uuid (uuid4 rnd)) = take 4 ?h"
    by (simp add: str_uuid_def Let_def length_hex_digits)
  have "list_all is_hex (take 4 ?h)"
    using hex_digits_hex [of 32 "uuid4 rnd"] by (auto simp: list_all_iff dest: in_set_takeD)
  moreover have "length (take 4 ?h) = 4" by (simp add: length_hex_digits)
  ultimately show ?thesis
    by (simp add: id_fullmatch_def id_match_at_def new_eid_def t)
qed

lemma new_eid_0: "new_eid 0 = ''node-0000''"
  by code_simp

lemma new_eid_1: "new_eid 1 = ''node-0000''"
  by code_simp

text \<open>
  C1, as the code has it. Every creation that passes the target check returns a state in
  which the new element is stored under the generated id, and that id always matches the
  id pattern: it is \<open>node-\<close> followed by the first four characters of the UUID string,
  which are hexadecimal digits of the random bytes. No other entry changes. The id is new
  to the registry only if it is not stored already; nothing in the code checks that.
\<close>

theorem created_id_matches_pattern:
  assumes "is_create i" and "\<not> (truthy tid \<and> registry st (the tid) = None)"
  shows "\<exists>st' el. execute_intent st i tid label raw rnd = Inr st' \<and>
           id_fullmatch (new_eid rnd) \<and>
           registry st' (new_eid rnd) = Some el \<and> eid el = new_eid rnd \<and>
           (\<forall>k. k \<noteq> new_eid rnd \<longrightarrow> registry st' k = registry st k) \<and>
           (registry st (new_eid rnd) = None \<longrightarrow>
              dom (registry st') = insert (new_eid rnd) (dom (registry st)) \<and>
              new_eid rnd \<notin> dom (registry st))"
  using execute_create_ok [OF assms, of label raw rnd] new_eid_matches [of rnd]
  by (auto simp: sys_log_def new_element_fields)

theorem created_id_matches_pattern_witness:
  "is_create CREATE_METRIC \<and> \<not> (truthy None \<and> registry NeuroShellOS (the None) = None) \<and>
   (\<exists>st' el. execute_intent NeuroShellOS CREATE_METRIC None ''cpu'' ''new bar cpu'' 0 = Inr st' \<and>
      id_fullmatch ''node-0000'' \<and> registry st' ''node-0000'' = Some el \<and>
      eid el = ''node-0000'')"
proof -
  have a: "is_create CREATE_METRIC" by (simp add: is_create_def)
  have b: "\<not> (truthy None \<and> registry NeuroShellOS (the None) = None)" by (simp add: truthy_def)
  from created_id_matches_pattern [OF a b, of "''cpu''" "''new bar cpu''" 0]
  obtain st' el where
    "execute_intent NeuroShellOS CREATE_METRIC None ''cpu'' ''new bar cpu'' 0 = Inr st'"
    "id_fullmatch (new_eid 0)" "registry st' (new_eid 0) = Some el" "eid el = new_eid 0"
    by blast
  then have "execute_intent NeuroShellOS CREATE_METRIC None ''cpu'' ''new bar cpu'' 0 = Inr st' \<and>
      id_fullmatch ''node-0000'' \<and> registry st' ''node-0000'' = Some el \<and>
      eid el = ''node-0000''"
    by (simp only: new_eid_0 simp_thms)
  then have "\<exists>st' el. execute_intent NeuroShellOS CREATE_METRIC None ''cpu'' ''new bar cpu'' 0 = Inr st' \<and>
      id_fullmatch ''node-0000'' \<and> registry st' ''node-0000'' = Some el \<and>
      eid el = ''node-0000''"
    by (intro exI)
  with a b show ?thesis by (intro conjI)
qed

text \<open>
  C1 as it is stated fails on uniqueness. After a creation with random bytes 0, the id
  that a creation with random bytes 1 generates is already stored, and that second
  creation replaces the stored metric by the new status element.
\<close>

theorem created_id_unique_counterexample:
  "new_eid 1 = new_eid 0 \<and>
   map_sum id (\<lambda>st. registry st (new_eid 1))
     (execute_intent NeuroShellOS CREATE_METRIC None ''cpu'' ''new bar cpu'' 0) =
     Inr (Some (MetricElement ''node-0000'' ''metric_display'' ''cpu'')) \<and>
   map_sum id (\<lambda>st. registry st ''node-0000'')
     (execute_intent
        (NeuroShellOS\<lparr>registry := [''node-0000'' \<mapsto> MetricElement ''node-0000'' ''metric_display'' ''cpu'']\<rparr>)
        CREATE_STATUS None ''net'' ''new light net'' 1) =
     Inr (Some (StatusElement ''node-0000'' ''status_indicator'' ''net''))"
  by (simp add: execute_create_ok is_create_def truthy_def new_eid_0 new_eid_1 sys_log_def
      new_element_def)

subsection \<open>Creation\<close>

text \<open>
  C4, as the code has it. A creation intent succeeds whenever the command names no target id
  or names one that is in the registry: the new element is stored under the generated id
  with the role of its kind and the label cut to 32 characters, and one success message with
  the role and the id is logged. (A target id that is not in the registry stops every
  intent at the first check of \<open>execute_intent\<close>.)
\<close>

theorem create_succeeds:
  assumes "is_create i" and "\<not> (truthy tid \<and> registry st (the tid) = None)"
  shows "\<exists>st' el. execute_intent st i tid label raw rnd = Inr st' \<and>
           registry st' (new_eid rnd) = Some el \<and>
           eid el = new_eid rnd \<and>
           title el = take 32 label \<and> length (title el) \<le> 32 \<and>
           role el = (if i = CREATE_METRIC then ''metric_display''
                      else if i = CREATE_DATA then ''data_view''
                      else if i = CREATE_STATUS then ''status_indicator''
                      else ''primary_action'') \<and>
           log_display st' = log_display st @
             [System (''Created '' @ role el @ '' ('' @ eid el @ '')'') ''#10B981'']"
proof -
  let ?el = "new_element i (new_eid rnd) label"
  let ?st' = "sys_log (st\<lparr>registry := (registry st)(new_eid rnd \<mapsto> ?el)\<rparr>)
            (''Created '' @ role ?el @ '' ('' @ new_eid rnd @ '')'') ''#10B981''"
  have "execute_intent st i tid label raw rnd = Inr ?st'"
    by (rule execute_create_ok [OF assms])
  moreover have "registry ?st' (new_eid rnd) = Some ?el"
    by (simp add: sys_log_def)
  moreover have "log_display ?st' = log_display st @
      [System (''Created '' @ role ?el @ '' ('' @ eid ?el @ '')'') ''#10B981'']"
    by (simp add: sys_log_def new_element_fields(1))
  ultimately show ?thesis
    using new_element_fields [of i "new_eid rnd" label] by blast
qed

theorem create_succeeds_witness:
  "is_create CREATE_DATA \<and> \<not> (truthy None \<and> registry NeuroShellOS (the None) = None) \<and>
   (\<exists>st' el. execute_intent NeuroShellOS CREATE_DATA None
        ''a label that is longer than thirty-two characters'' ''new list'' 0 = Inr st' \<and>
      registry st' ''node-0000'' = Some el \<and>
      title el = ''a label that is longer than thir'' \<and>
      role el = ''data_view'' \<and>
      last (log_display st') = System ''Created data_view (node-0000)'' ''#10B981'')"
proof -
  have a: "is_create CREATE_DATA" by (simp add: is_create_def)
  have b: "\<not> (truthy None \<and> registry NeuroShellOS (the None) = None)" by (simp add: truthy_def)
  from create_succeeds [OF a b, of "''a label that is longer than thirty-two characters''" "''new list''" 0]
  obtain st' el where
    "execute_intent NeuroShellOS CREATE_DATA None
        ''a label that is longer than thirty-two characters'' ''new list'' 0 = Inr st'"
    "registry st' (new_eid 0) = Some el" "eid el = new_eid 0"
    "title el = take 32 ''a label that is longer than thirty-two characters''"
    "role el = ''data_view''"
    "log_display st' = log_display NeuroShellOS @
       [System (''Created '' @ role el @ '' ('' @ eid el @ '')'') ''#10B981'']"
    by auto
  then have "execute_intent NeuroShellOS CREATE_DATA None
        ''a label that is longer than thirty-two characters'' ''new list'' 0 = Inr st' \<and>
      registry st' ''node-0000'' = Some el \<and>
      title el = ''a label that is longer than thir'' \<and>
      role el = ''data_view'' \<and>
      last (log_display st') = System ''Created data_view (node-0000)'' ''#10B981''"
    by (simp add: new_eid_0)
  then show ?thesis using a b by blast
qed

lemma create_with_id_classified:
  "re_search_id (lower (strip ''create node-ab12'')) = Some ''node-ab12'' \<and>
   classify (lower (strip ''create node-ab12'')) (Some ''node-ab12'') = CREATE_BASE"
  by code_simp

text \<open>
  C4 as it is stated fails: \<open>create node-ab12\<close> is classified as a creation and carries
  the target id \<open>node-ab12\<close>; with that id not in the registry the command ends with the
  not-found error and nothing is created.
\<close>

theorem create_succeeds_counterexample:
  "classify (lower (strip ''create node-ab12'')) (re_search_id (lower (strip ''create node-ab12'')))
     = CREATE_BASE \<and>
   execute_intent NeuroShellOS CREATE_BASE (Some ''node-ab12'') ''Node-ab12'' ''create node-ab12'' 0 =
     Inr (sys_log NeuroShellOS
            (''Error: Node '' @ [CHR 0x27] @ ''node-ab12'' @ [CHR 0x27] @ '' not found.'') ''#EF4444'') \<and>
   registry (sys_log NeuroShellOS
            (''Error: Node '' @ [CHR 0x27] @ ''node-ab12'' @ [CHR 0x27] @ '' not found.'') ''#EF4444'')
     = Map.empty"
  using create_with_id_classified
  by (simp add: not_found_guard truthy_def NeuroShellOS_def sys_log_def)

subsection \<open>The unknown intent\<close>

text \<open>
  C5, as the code has it. The unknown intent never fails and never changes the registry; it
  logs one error message. The message is the semantic mismatch when no target id was
  extracted or the extracted id is in the registry, and the not-found error when the
  extracted id is not in the registry.
\<close>

theorem unknown_reported:
  "\<exists>st'. execute_intent st Unknown tid label raw rnd = Inr st' \<and>
     registry st' = registry st \<and>
     log_display st' = log_display st @
       [System (if truthy tid \<and> registry st (the tid) = None
                then ''Error: Node '' @ [CHR 0x27] @ the tid @ [CHR 0x27] @ '' not found.''
                else ''Interpreter: Semantic Mismatch.'') ''#EF4444'']"
  by (simp add: execute_unknown sys_log_def)

theorem unknown_reported_witness:
  "\<exists>st'. execute_intent NeuroShellOS Unknown None ''Hello'' ''hello'' 0 = Inr st' \<and>
     registry st' = registry NeuroShellOS \<and>
     log_display st' = log_display NeuroShellOS @
       [System ''Interpreter: Semantic Mismatch.'' ''#EF4444'']"
  using unknown_reported [of NeuroShellOS None "''Hello''" "''hello''" 0]
  by (simp add: truthy_def)

lemma bare_id_classified:
  "re_search_id (lower (strip ''node-ab12'')) = Some ''node-ab12'' \<and>
   classify (lower (strip ''node-ab12'')) (Some ''node-ab12'') = Unknown"
  by code_simp

text \<open>
  C5 as it is stated fails when a target id was extracted that is not in the registry:
  the text \<open>node-ab12\<close> is classified as unknown and is answered by the not-found error.
\<close>

theorem unknown_reported_counterexample:
  "classify (lower (strip ''node-ab12'')) (re_search_id (lower (strip ''node-ab12''))) = Unknown \<and>
   map_sum id (last \<circ> log_display)
     (execute_intent NeuroShellOS Unknown (Some ''node-ab12'') ''Node-ab12'' ''node-ab12'' 0) \<noteq>
     Inr (System ''Interpreter: Semantic Mismatch.'' ''#EF4444'')"
  using bare_id_classified
  by (simp add: execute_unknown truthy_def NeuroShellOS_def sys_log_def)

subsection \<open>Interactions and capabilities\<close>

lemma has_capability:
  "(''numeric_update'' \<in> set (capabilities el)) = (\<exists>v. kstate el = MetricState v)"
  "(''list_append'' \<in> set (capabilities el)) = (\<exists>xs. kstate el = DataViewState xs)"
  "(''toggle_status'' \<in> set (capabilities el)) = (\<exists>a. kstate el = StatusState a)"
  by (simp_all add: capabilities_def split: kind_state.splits)

lemma guard_passes:
  "registry st t = Some target \<Longrightarrow> \<not> (truthy (Some t) \<and> registry st (the (Some t)) = None)"
  by simp

lemma execute_toggle_status:
  assumes "registry st t = Some target" and "kstate target = StatusState a"
  shows "execute_intent st INTERACT_TOGGLE (Some t) label raw rnd =
     Inr (sys_log (st\<lparr>registry := (registry st)(t \<mapsto> target\<lparr>kstate := StatusState (\<not> a)\<rparr>)\<rparr>)
            (''Toggled '' @ t) ''#10B981'')"
  using assms
  by (simp add: execute_intent_def is_create_def execute_toggle_def lookup_def has_capability
      toggle_active_def report_def)

lemma execute_toggle_other:
  assumes "registry st t = Some target" and "''toggle_status'' \<notin> set (capabilities target)"
  shows "execute_intent st INTERACT_TOGGLE (Some t) label raw rnd =
     Inr (sys_log st ''Interpreter: Semantic Mismatch.'' ''#EF4444'')"
  using assms
  by (simp add: execute_intent_def is_create_def execute_toggle_def lookup_def report_def)

lemma execute_numeric_other:
  assumes "registry st t = Some target" and "''numeric_update'' \<notin> set (capabilities target)"
  shows "execute_intent st INTERACT_NUMERIC (Some t) label raw rnd =
     Inr (sys_log st (''Capability Error: '' @ t @ '' is not a metric.'') ''#EF4444'')"
  using assms
  by (simp add: execute_intent_def is_create_def execute_numeric_def lookup_def report_def)

lemma execute_append_other:
  assumes "registry st t = Some target" and "''list_append'' \<notin> set (capabilities target)"
  shows "execute_intent st INTERACT_APPEND (Some t) label raw rnd =
     Inr (sys_log st (''Capability Error: '' @ t @ '' is not a data list.'') ''#EF4444'')"
  using assms
  by (simp add: execute_intent_def is_create_def execute_append_def lookup_def report_def)

lemma execute_append_dataview:
  assumes "registry st t = Some target" and "kstate target = DataViewState its"
  shows "execute_intent st INTERACT_APPEND (Some t) label raw rnd =
     Inr (sys_log (st\<lparr>registry := (registry st)(t \<mapsto>
                      target\<lparr>kstate := DataViewState (update_items its label)\<rparr>)\<rparr>)
            (''Logged data to '' @ t) ''#10B981'')"
  using assms
  by (simp add: execute_intent_def is_create_def execute_append_def lookup_def has_capability
      DataView_update_view_def report_def)

text \<open>
  C6 at a metric \<open>node-ab12\<close>. The toggle interaction on a target without the
  \<open>toggle_status\<close> capability changes nothing, but it is answered by the generic semantic
  mismatch, the message of an unknown intent, while the append and the numeric
  interaction on a target without their capability are answered by a capability error.
\<close>

theorem toggle_mismatch_message:
  "execute_intent
     (NeuroShellOS\<lparr>registry := [''node-ab12'' \<mapsto> MetricElement ''node-ab12'' ''metric_display'' ''CPU'']\<rparr>)
     INTERACT_TOGGLE (Some ''node-ab12'') ''Node-ab12'' ''toggle node-ab12'' 0 =
   Inr (sys_log
     (NeuroShellOS\<lparr>registry := [''node-ab12'' \<mapsto> MetricElement ''node-ab12'' ''metric_display'' ''CPU'']\<rparr>)
     ''Interpreter: Semantic Mismatch.'' ''#EF4444'') \<and>
   execute_intent
     (NeuroShellOS\<lparr>registry := [''node-ab12'' \<mapsto> MetricElement ''node-ab12'' ''metric_display'' ''CPU'']\<rparr>)
     INTERACT_APPEND (Some ''node-ab12'') ''x'' ''log x to node-ab12'' 0 =
   Inr (sys_log
     (NeuroShellOS\<lparr>registry := [''node-ab12'' \<mapsto> MetricElement ''node-ab12'' ''metric_display'' ''CPU'']\<rparr>)
     ''Capability Error: node-ab12 is not a data list.'' ''#EF4444'')"
proof -
  let ?el = "MetricElement ''node-ab12'' ''metric_display'' ''CPU''"
  let ?st = "NeuroShellOS\<lparr>registry := [''node-ab12'' \<mapsto> ?el]\<rparr>"
  have r: "registry ?st ''node-ab12'' = Some ?el" by simp
  have k: "kstate ?el = MetricState 0" by (simp add: MetricElement_def)
  have c1: "''toggle_status'' \<notin> set (capabilities ?el)" by (simp add: has_capability k)
  have c2: "''list_append'' \<notin> set (capabilities ?el)" by (simp add: has_capability k)
  show ?thesis
    using execute_toggle_other [OF r c1, of "''Node-ab12''" "''toggle node-ab12''" 0]
      execute_append_other [OF r c2, of "''x''" "''log x to node-ab12''" 0]
    by simp
qed

subsection \<open>What execution leaves alone\<close>

lemma frame_numeric:
  "execute_numeric st tid raw = Inr st' \<Longrightarrow>
   dom (registry st') = dom (registry st) \<and> (\<forall>k. tid \<noteq> Some k \<longrightarrow> registry st' k = registry st k)"
  by (auto simp: execute_numeric_def lookup_def report_def sys_log_def Let_def
      split: option.splits if_splits)

lemma frame_toggle:
  "execute_toggle st tid = Inr st' \<Longrightarrow>
   dom (registry st') = dom (registry st) \<and> (\<forall>k. tid \<noteq> Some k \<longrightarrow> registry st' k = registry st k)"
  by (auto simp: execute_toggle_def lookup_def report_def sys_log_def
      split: option.splits if_splits sum.splits)

lemma frame_append:
  "execute_append st tid label = Inr st' \<Longrightarrow>
   dom (registry st') = dom (registry st) \<and> (\<forall>k. tid \<noteq> Some k \<longrightarrow> registry st' k = registry st k)"
  by (auto simp: execute_append_def lookup_def report_def sys_log_def
      split: option.splits if_splits sum.splits)

lemma frame_create:
  "execute_create st i label rnd = Inr st' \<Longrightarrow>
   dom (registry st') = insert (new_eid rnd) (dom (registry st)) \<and>
   (\<forall>k. k \<noteq> new_eid rnd \<longrightarrow> registry st' k = registry st k)"
  by (auto simp: execute_create_def report_def sys_log_def Let_def)

text \<open>
  C9. Whatever intent is executed, no id leaves the registry. An interaction or the
  unknown intent leaves the set of ids as it is and changes no entity other than the
  target; a creation adds the generated id and changes no entry under another id.
\<close>

theorem registry_frame:
  assumes "execute_intent st i tid label raw rnd = Inr st'"
  shows "dom (registry st) \<subseteq> dom (registry st') \<and>
         (\<not> is_create i \<longrightarrow>
            dom (registry st') = dom (registry st) \<and>
            (\<forall>k. tid \<noteq> Some k \<longrightarrow> registry st' k = registry st k)) \<and>
         (dom (registry st') \<noteq> dom (registry st) \<longrightarrow>
            is_create i \<and> dom (registry st') = insert (new_eid rnd) (dom (registry st))) \<and>
         (is_create i \<longrightarrow> (\<forall>k. k \<noteq> new_eid rnd \<longrightarrow> registry st' k = registry st k))"
proof (cases "truthy tid \<and> registry st (the tid) = None")
  case True
  then have "st' = sys_log st (''Error: Node '' @ [CHR 0x27] @ the tid @ [CHR 0x27] @ '' not found.'') ''#EF4444''"
    using assms by (simp add: execute_intent_def)
  then have "registry st' = registry st" by (simp add: sys_log_def)
  then show ?thesis by simp
next
  case False
  show ?thesis
  proof (cases "is_create i")
    case True
    then have "execute_create st i label rnd = Inr st'"
      using assms False by (simp add: execute_intent_def)
    from frame_create [OF this] True show ?thesis by auto
  next
    case nc: False
    have "dom (registry st') = dom (registry st) \<and>
          (\<forall>k. tid \<noteq> Some k \<longrightarrow> registry st' k = registry st k)"
    proof (cases i)
      case Unknown
      then have "st' = report st False []"
        using assms False by (simp add: execute_intent_def is_create_def)
      then show ?thesis by (simp add: report_def sys_log_def)
    next
      case INTERACT_TOGGLE
      then have "execute_toggle st tid = Inr st'"
        using assms False by (simp add: execute_intent_def is_create_def)
      then show ?thesis by (rule frame_toggle)
    next
      case INTERACT_APPEND
      then have "execute_append st tid label = Inr st'"
        using assms False by (simp add: execute_intent_def is_create_def)
      then show ?thesis by (rule frame_append)
    next
      case INTERACT_NUMERIC
      then have "execute_numeric st tid raw = Inr st'"
        using assms False by (simp add: execute_intent_def is_create_def)
      then show ?thesis by (rule frame_numeric)
    qed (use nc in \<open>simp_all add: is_create_def\<close>)
    then show ?thesis using nc by simp
  qed
qed

theorem registry_frame_witness:
  "execute_intent
     (NeuroShellOS\<lparr>registry := [''node-ab12'' \<mapsto> MetricElement ''node-ab12'' ''metric_display'' ''CPU'',
                               ''node-ef56'' \<mapsto> StatusElement ''node-ef56'' ''status_indicator'' ''Net'']\<rparr>)
     INTERACT_TOGGLE (Some ''node-ef56'') ''Node-ef56'' ''toggle node-ef56'' 0 =
   Inr (sys_log
     (NeuroShellOS\<lparr>registry := [''node-ab12'' \<mapsto> MetricElement ''node-ab12'' ''metric_display'' ''CPU'',
                               ''node-ef56'' \<mapsto> (StatusElement ''node-ef56'' ''status_indicator'' ''Net'')
                                                  \<lparr>kstate := StatusState True\<rparr>]\<rparr>)
     ''Toggled node-ef56'' ''#10B981'') \<and>
   \<not> is_create INTERACT_TOGGLE \<and>
   dom (registry (sys_log
     (NeuroShellOS\<lparr>registry := [''node-ab12'' \<mapsto> MetricElement ''node-ab12'' ''metric_display'' ''CPU'',
                               ''node-ef56'' \<mapsto> (StatusElement ''node-ef56'' ''status_indicator'' ''Net'')
                                                  \<lparr>kstate := StatusState True\<rparr>]\<rparr>)
     ''Toggled node-ef56'' ''#10B981'')) =
   dom (registry
     (NeuroShellOS\<lparr>registry := [''node-ab12'' \<mapsto> MetricElement ''node-ab12'' ''metric_display'' ''CPU'',
                               ''node-ef56'' \<mapsto> StatusElement ''node-ef56'' ''status_indicator'' ''Net'']\<rparr>))"
proof -
  let ?m = "MetricElement ''node-ab12'' ''metric_display'' ''CPU''"
  let ?s = "StatusElement ''node-ef56'' ''status_indicator'' ''Net''"
  let ?st = "NeuroShellOS\<lparr>registry := [''node-ab12'' \<mapsto> ?m, ''node-ef56'' \<mapsto> ?s]\<rparr>"
  let ?st' = "sys_log (NeuroShellOS\<lparr>registry := [''node-ab12'' \<mapsto> ?m,
                 ''node-ef56'' \<mapsto> ?s\<lparr>kstate := StatusState True\<rparr>]\<rparr>) ''Toggled node-ef56'' ''#10B981''"
  have r: "registry ?st ''node-ef56'' = Some ?s" by simp
  have k: "kstate ?s = StatusState False" by (simp add: StatusElement_def)
  have ex: "execute_intent ?st INTERACT_TOGGLE (Some ''node-ef56'') ''Node-ef56'' ''toggle node-ef56'' 0 = Inr ?st'"
    using execute_toggle_status [OF r k, of "''Node-ef56''" "''toggle node-ef56''" 0] by simp
  have nc: "\<not> is_create INTERACT_TOGGLE" by (simp add: is_create_def)
  have "dom (registry ?st') = dom (registry ?st)"
    using registry_frame [OF ex] nc by (simp only: simp_thms)
  with ex nc show ?thesis by (intro conjI)
qed

subsection \<open>Classification\<close>

text \<open>
  C8. The intent is computed from the normalized text and from whether a target id is
  present, and from nothing else: two optional ids that are both present or both absent
  give the same intent for the same text. (The classifier reads neither the registry
  nor the random bytes.)
\<close>

theorem classify_deterministic:
  "truthy t1 = truthy t2 \<Longrightarrow> classify text t1 = classify text t2"
  by (simp add: classify_def)

theorem classify_deterministic_witness:
  "truthy (Some ''node-ab12'') = truthy (Some ''node-ffff'') \<and>
   classify ''toggle node-ab12'' (Some ''node-ab12'') = classify ''toggle node-ab12'' (Some ''node-ffff'')"
proof -
  have h: "truthy (Some ''node-ab12'') = truthy (Some ''node-ffff'')" by (simp add: truthy_def)
  from classify_deterministic [OF h, of "''toggle node-ab12''"] h show ?thesis by (intro conjI)
qed

lemma re_search_id_length: "re_search_id s = Some t \<Longrightarrow> length t = 9"
  by (induction s) (auto simp: id_match_at_def split: if_splits)

lemma re_search_id_truthy: "truthy (re_search_id s) = (re_search_id s \<noteq> None)"
  using re_search_id_length [of s] by (cases "re_search_id s") (auto simp: truthy_def)


subsection \<open>Command processing never fails\<close>










subsection \<open>Label extraction\<close>

lemma scan_close_Some:
  "scan_close s = Some q \<Longrightarrow>
   \<exists>c post. s = q @ c # post \<and> is_quote c \<and> (\<forall>x\<in>set q. \<not> is_quote x \<and> x \<noteq> CHR 0x0A)"
proof (induction s arbitrary: q)
  case Nil
  then show ?case by simp
next
  case (Cons a s)
  show ?case
  proof (cases "is_quote a")
    case True
    then have "q = []" using Cons.prems by simp
    then show ?thesis using True by simp
  next
    case False
    then obtain q' where q': "scan_close s = Some q'" "q = a # q'" "a \<noteq> CHR 0x0A"
      using Cons.prems by (auto split: if_splits)
    from Cons.IH [OF q'(1)] obtain c post where
      "s = q' @ c # post" "is_quote c" "\<forall>x\<in>set q'. \<not> is_quote x \<and> x \<noteq> CHR 0x0A"
      by blast
    then show ?thesis using False q' by auto
  qed
qed

lemma scan_close_None:
  "scan_close s = None \<Longrightarrow> CHR 0x0A \<notin> set s \<Longrightarrow> \<forall>x\<in>set s. \<not> is_quote x"
  by (induction s) (auto split: if_splits)

text \<open>
  What \<open>first_quoted\<close> returns lies between two quote characters and holds none; in a
  text of one line no quote character comes before the opening one.
\<close>

lemma first_quoted_Some:
  "first_quoted s = Some q \<Longrightarrow>
   \<exists>pre a c post. s = pre @ a # q @ c # post \<and> is_quote a \<and> is_quote c \<and>
      (\<forall>x\<in>set q. \<not> is_quote x) \<and>
      (CHR 0x0A \<notin> set s \<longrightarrow> (\<forall>x\<in>set pre. \<not> is_quote x))"
proof (induction s)
  case Nil
  then show ?case by simp
next
  case (Cons b s)
  show ?case
  proof (cases "is_quote b \<and> scan_close s \<noteq> None")
    case True
    then have sc: "scan_close s = Some q" using Cons.prems by auto
    from scan_close_Some [OF sc] obtain c post where
      "s = q @ c # post" "is_quote c" "\<forall>x\<in>set q. \<not> is_quote x \<and> x \<noteq> CHR 0x0A"
      by blast
    then have "b # s = [] @ b # q @ c # post \<and> is_quote b \<and> is_quote c \<and>
        (\<forall>x\<in>set q. \<not> is_quote x) \<and> (\<forall>x\<in>set ([] :: string). \<not> is_quote x)"
      using True by simp
    then show ?thesis by blast
  next
    case False
    then have fq: "first_quoted s = Some q"
      using Cons.prems by (auto split: if_splits option.splits)
    from Cons.IH [OF fq] obtain pre a c post where
      d: "s = pre @ a # q @ c # post" "is_quote a" "is_quote c" "\<forall>x\<in>set q. \<not> is_quote x"
         "CHR 0x0A \<notin> set s \<longrightarrow> (\<forall>x\<in>set pre. \<not> is_quote x)"
      by blast
    have nb: "CHR 0x0A \<notin> set (b # s) \<Longrightarrow> \<not> is_quote b"
    proof
      assume nl: "CHR 0x0A \<notin> set (b # s)" and qb: "is_quote b"
      then have "scan_close s = None" using False by simp
      then have "\<forall>x\<in>set s. \<not> is_quote x" using nl by (intro scan_close_None) simp_all
      then show False using d(1,2) by simp
    qed
    have "b # s = (b # pre) @ a # q @ c # post" using d(1) by simp
    moreover have "CHR 0x0A \<notin> set (b # s) \<longrightarrow> (\<forall>x\<in>set (b # pre). \<not> is_quote x)"
      using nb d(5) by auto
    ultimately show ?thesis using d(2,3,4) by blast
  qed
qed

lemma startswith_take: "startswith s w = (take (length w) s = w)"
  by (induction s w rule: startswith.induct) auto

text \<open>
  A match of the connective pattern at the start of a text: a connective word in any case,
  a non-empty run of whitespace, and the group, which is the rest of that line.
\<close>

lemma connective_at_Some:
  assumes "connective_at s = Some g"
  shows "\<exists>w sp rest. w \<in> set connectives \<and> lower (take (length w) s) = w \<and>
           s = take (length w) s @ sp @ rest \<and> sp \<noteq> [] \<and> (\<forall>c\<in>set sp. isspace c) \<and>
           (rest \<noteq> [] \<longrightarrow> \<not> isspace (hd rest)) \<and>
           g = takeWhile (\<lambda>c. c \<noteq> CHR 0x0A) rest"
proof -
  let ?P = "\<lambda>w. startswith (lower s) w \<and>
              (case drop (length w) s of [] \<Rightarrow> False | d # _ \<Rightarrow> isspace d)"
  from assms obtain w ws where f: "filter ?P connectives = w # ws"
    by (auto simp: connective_at_def split: list.splits)
  then have g: "g = takeWhile (\<lambda>c. c \<noteq> CHR 0x0A) (dropWhile isspace (drop (length w) s))"
    using assms by (simp add: connective_at_def)
  have "w \<in> set (filter ?P connectives)" by (simp add: f)
  then have w: "w \<in> set connectives" and p: "?P w" by simp_all
  let ?d = "drop (length w) s"
  let ?sp = "takeWhile isspace ?d"
  let ?rest = "dropWhile isspace ?d"
  from p obtain d ds where d: "?d = d # ds" "isspace d"
    by (auto split: list.splits)
  have lw: "lower (take (length w) s) = w"
    using p by (simp add: startswith_take lower_def take_map)
  have "s = take (length w) s @ ?sp @ ?rest" by simp
  moreover have "?sp \<noteq> []" using d by simp
  moreover have "\<forall>c\<in>set ?sp. isspace c" by (meson set_takeWhileD)
  moreover have "?rest \<noteq> [] \<longrightarrow> \<not> isspace (hd ?rest)" using hd_dropWhile by blast
  ultimately show ?thesis using w lw g by blast
qed

text \<open>The search returns the group of the leftmost position where the pattern matches.\<close>

lemma re_search_connective_Some:
  "re_search_connective s = Some g \<Longrightarrow>
   \<exists>pre s'. s = pre @ s' \<and> connective_at s' = Some g \<and>
     (\<forall>k<length pre. connective_at (drop k s) = None)"
proof (induction s)
  case Nil
  then show ?case by simp
next
  case (Cons c cs)
  show ?case
  proof (cases "connective_at (c # cs)")
    case (Some g')
    then have "g' = g" using Cons.prems by simp
    then have "c # cs = [] @ (c # cs) \<and> connective_at (c # cs) = Some g \<and>
        (\<forall>k<length ([] :: string). connective_at (drop k (c # cs)) = None)"
      using Some by simp
    then show ?thesis by blast
  next
    case None
    then have "re_search_connective cs = Some g" using Cons.prems by simp
    from Cons.IH [OF this] obtain pre s' where
      d: "cs = pre @ s'" "connective_at s' = Some g"
         "\<forall>k<length pre. connective_at (drop k cs) = None"
      by blast
    have "\<forall>k<length (c # pre). connective_at (drop k (c # cs)) = None"
    proof (intro allI impI)
      fix k assume "k < length (c # pre)"
      then show "connective_at (drop k (c # cs)) = None"
        using None d(3) by (cases k) simp_all
    qed
    moreover have "c # cs = (c # pre) @ s'" using d(1) by simp
    ultimately show ?thesis using d(2) by blast
  qed
qed

lemma re_search_connective_None:
  "re_search_connective s = None \<Longrightarrow> \<forall>k. connective_at (drop k s) = None"
proof (induction s)
  case Nil
  then show ?case by (simp add: connective_at_def connectives_def)
next
  case (Cons c cs)
  then have n: "connective_at (c # cs) = None" and r: "re_search_connective cs = None"
    by (auto split: option.splits)
  show ?case
  proof
    fix k show "connective_at (drop k (c # cs)) = None"
      using n Cons.IH [OF r] by (cases k) simp_all
  qed
qed





text \<open>The other two sources of the label, and the removal of an id.\<close>

lemma label_examples:
  "extract_label ''add photo viewer for the Storage team '' = Inr ''viewer for the Storage team''"
  "extract_label ''create fooBar'' = Inr ''Foobar''"
  "extract_label ''log reading node-ab12 to node-ab12'' = Inr []"
  "extract_label ''toggle node-ab12'' = Inr ''Node-ab12''"
  by code_simp+

subsection \<open>The scenarios of the specification\<close>

text \<open>
  The five scenarios, run through \<open>process_intent\<close> from the initial state. The random
  bytes are chosen so that the generated ids are the ones the scenarios name.
\<close>

lemma scenario_create_metric:
  "map_sum id (\<lambda>st. (registry st ''node-ab12'', last (log_display st)))
     (run NeuroShellOS
        [(''create a new progress bar called '' @ [CHR 0x27] @ ''CPU Load'' @ [CHR 0x27],
          push_bit 112 0xab12)]) =
   Inr (Some \<lparr>eid = ''node-ab12'', role = ''metric_display'', title = ''CPU Load'',
              color = ''primary'', kstate = MetricState 0\<rparr>,
        System ''Created metric_display (node-ab12)'' ''#10B981'')"
  by code_simp

lemma scenario_toggle_missing:
  "map_sum id (\<lambda>st. (registry st ''node-ab12'', last (log_display st)))
     (run NeuroShellOS [(''toggle node-ab12'', 0)]) =
   Inr (None, System (''Error: Node '' @ [CHR 0x27] @ ''node-ab12'' @ [CHR 0x27] @ '' not found.'')
               ''#EF4444'')"
  by code_simp

lemma scenario_set_clamped:
  "map_sum id (\<lambda>st. (map_option kstate (registry st ''node-ab12''), last (log_display st)))
     (run NeuroShellOS
        [(''add a progress bar called cpu'', push_bit 112 0xab12),
         (''set node-ab12 to 150'', 0)]) =
   Inr (Some (MetricState 100), System ''Set node-ab12 to 100%'' ''#10B981'')"
  by code_simp

lemma scenario_toggle_twice:
  "map_sum id (\<lambda>st. map_option kstate (registry st ''node-ef56''))
     (run NeuroShellOS
        [(''create a status light called net'', push_bit 112 0xef56),
         (''toggle node-ef56'', 0)]) = Inr (Some (StatusState True)) \<and>
   map_sum id (\<lambda>st. map_option kstate (registry st ''node-ef56''))
     (run NeuroShellOS
        [(''create a status light called net'', push_bit 112 0xef56),
         (''toggle node-ef56'', 0), (''toggle node-ef56'', 0)]) = Inr (Some (StatusState False))"
  by code_simp

lemma update_items_full:
  "length its = 50 \<Longrightarrow> new_item \<noteq> [] \<Longrightarrow> update_items its new_item = tl its @ [new_item]"
  by (cases its) (simp_all add: update_items_def max_data_items_def)

lemma scenario_log_label:
  "extract_label (''log '' @ [CHR 0x27] @ ''new entry'' @ [CHR 0x27] @ '' to node-cd34'') = Inr ''new entry'' \<and>
   classify (lower (''log '' @ [CHR 0x27] @ ''new entry'' @ [CHR 0x27] @ '' to node-cd34''))
     (re_search_id (lower (''log '' @ [CHR 0x27] @ ''new entry'' @ [CHR 0x27] @ '' to node-cd34'')))
     = INTERACT_APPEND"
  by code_simp

lemma scenario_log_full:
  assumes "registry st ''node-cd34'' = Some target" and "kstate target = DataViewState its"
    and "length its = 50"
  shows "\<exists>st' its'. execute_intent st INTERACT_APPEND (Some ''node-cd34'') ''new entry'' raw rnd = Inr st' \<and>
           map_option kstate (registry st' ''node-cd34'') = Some (DataViewState its') \<and>
           length its' = 50 \<and> its' = tl its @ [''new entry''] \<and> last its' = ''new entry''"
  using execute_append_dataview [OF assms(1,2), of "''new entry''" raw rnd] assms(3)
  by (simp add: update_items_full sys_log_def)

end
